theory Spec2Isabelle
  imports Complex_Main
begin

section \<open>Python values used by the handler\<close>

text \<open>
  A Python \<open>str\<close> is a sequence of Unicode code points; it is modelled as the list of
  their numbers, so that \<open>str.strip\<close> sees the same characters as the interpreter does.
  \<open>lit\<close> embeds an ASCII literal of the source.
\<close>

type_synonym pystr = "nat list"

definition lit :: "string \<Rightarrow> pystr" where
  "lit s = map of_char s"

text \<open>
  \<open>str.isspace\<close> for one code point: the characters CPython treats as whitespace
  (U+0009..U+000D, U+001C..U+0020, U+0085, U+00A0, U+1680, U+2000..U+200A, U+2028,
  U+2029, U+202F, U+205F, U+3000).
\<close>

definition isspace :: "nat \<Rightarrow> bool" where
  "isspace c \<longleftrightarrow>
     (9 \<le> c \<and> c \<le> 13) \<or> (28 \<le> c \<and> c \<le> 32) \<or> c = 133 \<or> c = 160 \<or> c = 5760 \<or>
     (8192 \<le> c \<and> c \<le> 8202) \<or> c = 8232 \<or> c = 8233 \<or> c = 8239 \<or> c = 8287 \<or> c = 12288"

text \<open>\<open>s.strip()\<close>: whitespace removed at both ends.\<close>

definition strip :: "pystr \<Rightarrow> pystr" where
  "strip s = rev (dropWhile isspace (rev (dropWhile isspace s)))"

text \<open>\<open>str(n)\<close> for an integer, as an f-string renders \<open>{resp.status_code}\<close>.\<close>

fun digits :: "nat \<Rightarrow> pystr" where
  "digits n = (if n < 10 then [48 + n] else digits (n div 10) @ [48 + n mod 10])"

declare digits.simps [simp del]

definition str_int :: "int \<Rightarrow> pystr" where
  "str_int i = (if i < 0 then 45 # digits (nat (- i)) else digits (nat i))"

text \<open>
  The values \<open>Response.json()\<close> can produce. A JSON object is the list of the items of
  the resulting \<open>dict\<close>. A float is the real number it denotes, an infinity or NaN.
\<close>

datatype pyfloat = Finite real | Infinity bool | NaN

datatype json_value =
    JNull
  | JBool bool
  | JInt int
  | JFloat pyfloat
  | JStr pystr
  | JArr "json_value list"
  | JObj "(pystr \<times> json_value) list"

text \<open>Truth value testing, as \<open>not html_url\<close> applies it.\<close>

fun truthy :: "json_value \<Rightarrow> bool" where
  "truthy JNull = False"
| "truthy (JBool b) = b"
| "truthy (JInt i) = (i \<noteq> 0)"
| "truthy (JFloat f) = (f \<noteq> Finite 0)"
| "truthy (JStr s) = (s \<noteq> [])"
| "truthy (JArr xs) = (xs \<noteq> [])"
| "truthy (JObj kvs) = (kvs \<noteq> [])"

fun type_name :: "json_value \<Rightarrow> pystr" where
  "type_name JNull = lit ''NoneType''"
| "type_name (JBool b) = lit ''bool''"
| "type_name (JInt i) = lit ''int''"
| "type_name (JFloat f) = lit ''float''"
| "type_name (JStr s) = lit ''str''"
| "type_name (JArr xs) = lit ''list''"
| "type_name (JObj kvs) = lit ''dict''"

text \<open>\<open>d.get(k)\<close>: the value stored under \<open>k\<close>, \<open>None\<close> when the key is absent.\<close>

definition dict_get :: "(pystr \<times> json_value) list \<Rightarrow> pystr \<Rightarrow> json_value" where
  "dict_get kvs k = (case map_of kvs k of None \<Rightarrow> JNull | Some v \<Rightarrow> v)"

section \<open>Exceptions and the handler's outcomes\<close>

text \<open>
  The exceptions the handler distinguishes. \<open>UnknownObjectException\<close> is a subclass of
  \<open>GithubException\<close>; the constructor \<open>GithubException\<close> stands for every other instance
  of that class. Both carry \<open>e.status\<close> and the text \<open>str(e)\<close>. \<open>OtherException\<close> is any
  \<open>Exception\<close> outside that hierarchy.
\<close>

datatype py_exception =
    UnknownObjectException int pystr
  | GithubException int pystr
  | AttributeError pystr
  | OtherException pystr

fun is_GithubException :: "py_exception \<Rightarrow> bool" where
  "is_GithubException (UnknownObjectException st m) = True"
| "is_GithubException (GithubException st m) = True"
| "is_GithubException (AttributeError m) = False"
| "is_GithubException (OtherException m) = False"

fun is_UnknownObjectException :: "py_exception \<Rightarrow> bool" where
  "is_UnknownObjectException (UnknownObjectException st m) = True"
| "is_UnknownObjectException (GithubException st m) = False"
| "is_UnknownObjectException (AttributeError m) = False"
| "is_UnknownObjectException (OtherException m) = False"

text \<open>\<open>e.status\<close>, read only from a \<open>GithubException\<close>.\<close>

fun status :: "py_exception \<Rightarrow> int option" where
  "status (UnknownObjectException st m) = Some st"
| "status (GithubException st m) = Some st"
| "status (AttributeError m) = None"
| "status (OtherException m) = None"

text \<open>\<open>str(e)\<close>, as \<open>{e}\<close> renders it in an f-string.\<close>

fun exc_str :: "py_exception \<Rightarrow> pystr" where
  "exc_str (UnknownObjectException st m) = m"
| "exc_str (GithubException st m) = m"
| "exc_str (AttributeError m) = m"
| "exc_str (OtherException m) = m"

text \<open>
  How a call of \<open>deploy\<close> ends without a result: with the \<open>HTTPException\<close> it raised
  (status code and detail), which the framework renders as the body \<open>{"detail": ...}\<close>,
  or with any other exception, which leaves the handler uncaught.
\<close>

datatype failure =
    HTTPException int pystr
  | Uncaught py_exception

section \<open>Requests, provider objects and the call trace\<close>

record DeployRequest =
  repoName :: pystr
  html :: pystr

record user =
  login :: pystr

record content_file =
  sha :: pystr

record response =
  status_code :: int
  resp_text :: pystr
  json :: "py_exception + json_value"

type_synonym headers = "(pystr \<times> pystr) list"

text \<open>
  The calls the handler makes outside the process, with their arguments in the order of
  the source: the receiver first, then \<open>path\<close>, \<open>message\<close>, \<open>content\<close>, \<open>sha\<close>, \<open>branch\<close>
  for the file operations, and URL, headers and JSON payload for the HTTP requests.
  \<open>'r\<close> is the type of repository objects.
\<close>

datatype 'r call =
    GetUser pystr
  | GetRepo user pystr
  | CreateRepo user pystr bool
  | Sleep nat
  | GetContents 'r pystr pystr
  | UpdateFile 'r pystr pystr pystr pystr pystr
  | CreateFile 'r pystr pystr pystr pystr
  | RequestsPost pystr headers json_value
  | RequestsGet pystr headers

datatype 'r reply =
    Raised py_exception
  | GotUser user
  | GotRepo 'r
  | GotContents content_file
  | Done
  | GotResponse response

type_synonym 'r event = "'r call \<times> 'r reply"

text \<open>
  The hosting provider and the HTTP library are not part of the program: each operation
  is a parameter, a function of its arguments and of the state \<open>'w\<close> of the outside world
  that either raises or returns, and leaves a new state of the world.

  \<open>user_login\<close> is the read of the attribute \<open>user.login\<close>. The object \<open>g.get_user()\<close>
  returns may be lazy: the library then asks the provider for the user only when an
  attribute is read, so that this read is where a rejected credential raises. The read is
  not a call in the source, and the trace does not list it.
\<close>

record ('w, 'r) provider =
  get_user :: "pystr \<Rightarrow> 'w \<Rightarrow> (py_exception + user) \<times> 'w"
  user_login :: "user \<Rightarrow> 'w \<Rightarrow> (py_exception + pystr) \<times> 'w"
  get_repo :: "user \<Rightarrow> pystr \<Rightarrow> 'w \<Rightarrow> (py_exception + 'r) \<times> 'w"
  create_repo :: "user \<Rightarrow> pystr \<Rightarrow> bool \<Rightarrow> 'w \<Rightarrow> (py_exception + 'r) \<times> 'w"
  get_contents :: "'r \<Rightarrow> pystr \<Rightarrow> pystr \<Rightarrow> 'w \<Rightarrow> (py_exception + content_file) \<times> 'w"
  update_file ::
    "'r \<Rightarrow> pystr \<Rightarrow> pystr \<Rightarrow> pystr \<Rightarrow> pystr \<Rightarrow> pystr \<Rightarrow> 'w \<Rightarrow> (py_exception + unit) \<times> 'w"
  create_file ::
    "'r \<Rightarrow> pystr \<Rightarrow> pystr \<Rightarrow> pystr \<Rightarrow> pystr \<Rightarrow> 'w \<Rightarrow> (py_exception + unit) \<times> 'w"
  requests_post :: "pystr \<Rightarrow> headers \<Rightarrow> json_value \<Rightarrow> 'w \<Rightarrow> (py_exception + response) \<times> 'w"
  requests_get :: "pystr \<Rightarrow> headers \<Rightarrow> 'w \<Rightarrow> (py_exception + response) \<times> 'w"

text \<open>
  The state a run threads through: the outside world and the calls made so far, each with
  what it returned or raised.
\<close>

type_synonym ('w, 'r) run = "'w \<times> 'r event list"

definition perform ::
  "'r call \<Rightarrow> ('a \<Rightarrow> 'r reply) \<Rightarrow> ('w \<Rightarrow> (py_exception + 'a) \<times> 'w) \<Rightarrow> ('w, 'r) run
     \<Rightarrow> (py_exception + 'a) \<times> ('w, 'r) run" where
  "perform c wrap f s =
     (case f (fst s) of
        (Inl e, w') \<Rightarrow> (Inl e, (w', snd s @ [(c, Raised e)]))
      | (Inr v, w') \<Rightarrow> (Inr v, (w', snd s @ [(c, wrap v)])))"

section \<open>The handler \<open>deploy\<close>\<close>

text \<open>
  Lines 37 to 41: \<open>g.get_user()\<close> under \<open>except Exception\<close>; whatever it raises becomes
  the \<open>HTTPException\<close> with status 401.
\<close>

definition deploy_get_user ::
  "('w, 'r) provider \<Rightarrow> pystr \<Rightarrow> ('w, 'r) run \<Rightarrow> (failure + user) \<times> ('w, 'r) run" where
  "deploy_get_user P GITHUB_TOKEN s =
     (case perform (GetUser GITHUB_TOKEN) GotUser (get_user P GITHUB_TOKEN) s of
        (Inl e, s1) \<Rightarrow> (Inl (HTTPException 401 (lit ''Invalid GitHub token'')), s1)
      | (Inr u, s1) \<Rightarrow> (Inr u, s1))"

text \<open>
  Line 43: \<open>username = user.login\<close>, after the \<open>try\<close> statement of lines 38 to 41 and
  outside any other: what the read raises is not caught.
\<close>

definition deploy_login ::
  "('w, 'r) provider \<Rightarrow> user \<Rightarrow> ('w, 'r) run \<Rightarrow> (failure + pystr) \<times> ('w, 'r) run" where
  "deploy_login P u s =
     (case user_login P u (fst s) of
        (Inl e, w') \<Rightarrow> (Inl (Uncaught e), (w', snd s))
      | (Inr username, w') \<Rightarrow> (Inr username, (w', snd s)))"

text \<open>
  Lines 47 to 53: \<open>user.get_repo(repo_name)\<close> under \<open>except GithubException as e\<close>. With
  \<open>e.status == 404\<close> the handler calls \<open>user.create_repo(name=repo_name, auto_init=True)\<close>
  inside the \<open>except\<close> clause, where nothing catches what that call raises; with any other
  status it raises the \<open>HTTPException\<close> with status 400. An exception that is not a
  \<open>GithubException\<close> is not caught.
\<close>

definition deploy_get_repo ::
  "('w, 'r) provider \<Rightarrow> user \<Rightarrow> pystr \<Rightarrow> ('w, 'r) run \<Rightarrow> (failure + 'r) \<times> ('w, 'r) run" where
  "deploy_get_repo P u repo_name s =
     (case perform (GetRepo u repo_name) GotRepo (get_repo P u repo_name) s of
        (Inr repo, s1) \<Rightarrow> (Inr repo, s1)
      | (Inl e, s1) \<Rightarrow>
          if is_GithubException e then
            if status e = Some 404 then
              (case perform (CreateRepo u repo_name True) GotRepo
                      (create_repo P u repo_name True) s1 of
                 (Inr repo, s2) \<Rightarrow> (Inr repo, s2)
               | (Inl e', s2) \<Rightarrow> (Inl (Uncaught e'), s2))
            else (Inl (HTTPException 400 (lit ''Repo access error: '' @ exc_str e)), s1)
          else (Inl (Uncaught e), s1))"

text \<open>Line 55: \<open>time.sleep(2)\<close>.\<close>

definition deploy_sleep :: "('w, 'r) run \<Rightarrow> ('w, 'r) run" where
  "deploy_sleep s = (fst s, snd s @ [(Sleep 2, Done)])"

text \<open>
  Lines 67 to 75, the two \<open>except\<close> clauses of the \<open>try\<close> statement of line 58, applied to
  an exception \<open>e\<close> raised in its body. For an \<open>UnknownObjectException\<close> the first clause
  calls \<open>repo.create_file\<close>; an exception raised there is raised inside an \<open>except\<close>
  clause, so the second clause of the same statement does not catch it. Any other
  exception becomes the \<open>HTTPException\<close> with status 500.
\<close>

definition deploy_push_except ::
  "('w, 'r) provider \<Rightarrow> 'r \<Rightarrow> pystr \<Rightarrow> py_exception \<Rightarrow> ('w, 'r) run
     \<Rightarrow> (failure + unit) \<times> ('w, 'r) run" where
  "deploy_push_except P repo content e s =
     (if is_UnknownObjectException e then
        (case perform
                (CreateFile repo (lit ''index.html'') (lit ''Add index.html'') content (lit ''main''))
                (\<lambda>_. Done)
                (create_file P repo (lit ''index.html'') (lit ''Add index.html'') content
                   (lit ''main'')) s of
           (Inr _, s1) \<Rightarrow> (Inr (), s1)
         | (Inl e', s1) \<Rightarrow> (Inl (Uncaught e'), s1))
      else (Inl (HTTPException 500 (lit ''Failed to push index.html: '' @ exc_str e)), s))"

text \<open>
  Lines 58 to 75: the body of the \<open>try\<close> statement is
  \<open>repo.get_contents("index.html", ref="main")\<close> followed by \<open>repo.update_file\<close> with the
  \<open>sha\<close> of what the lookup returned; an exception of either call goes to the \<open>except\<close>
  clauses.
\<close>

definition deploy_push ::
  "('w, 'r) provider \<Rightarrow> 'r \<Rightarrow> pystr \<Rightarrow> ('w, 'r) run \<Rightarrow> (failure + unit) \<times> ('w, 'r) run" where
  "deploy_push P repo content s =
     (case perform (GetContents repo (lit ''index.html'') (lit ''main'')) GotContents
             (get_contents P repo (lit ''index.html'') (lit ''main'')) s of
        (Inl e, s1) \<Rightarrow> deploy_push_except P repo content e s1
      | (Inr existing, s1) \<Rightarrow>
          (case perform
                  (UpdateFile repo (lit ''index.html'') (lit ''Update index.html'') content
                     (sha existing) (lit ''main''))
                  (\<lambda>_. Done)
                  (update_file P repo (lit ''index.html'') (lit ''Update index.html'') content
                     (sha existing) (lit ''main'')) s1 of
             (Inl e, s2) \<Rightarrow> deploy_push_except P repo content e s2
           | (Inr _, s2) \<Rightarrow> (Inr (), s2)))"

text \<open>Lines 78 to 83: the URL, the headers and the payload of the two Pages requests.\<close>

definition pages_api :: "pystr \<Rightarrow> pystr \<Rightarrow> pystr" where
  "pages_api username repo_name =
     lit ''https://api.github.com/repos/'' @ username @ lit ''/'' @ repo_name @ lit ''/pages''"

definition pages_headers :: "pystr \<Rightarrow> headers" where
  "pages_headers GITHUB_TOKEN =
     [(lit ''Authorization'', lit ''Bearer '' @ GITHUB_TOKEN),
      (lit ''Accept'', lit ''application/vnd.github+json'')]"

definition pages_payload :: json_value where
  "pages_payload =
     JObj [(lit ''source'',
            JObj [(lit ''branch'', JStr (lit ''main'')), (lit ''path'', JStr (lit ''/''))])]"

text \<open>
  Lines 84 to 89: \<open>requests.post\<close>, outside any \<open>try\<close> statement, and the test of its
  status code.
\<close>

definition deploy_enable_pages ::
  "('w, 'r) provider \<Rightarrow> pystr \<Rightarrow> pystr \<Rightarrow> pystr \<Rightarrow> ('w, 'r) run
     \<Rightarrow> (failure + unit) \<times> ('w, 'r) run" where
  "deploy_enable_pages P GITHUB_TOKEN username repo_name s =
     (case perform
             (RequestsPost (pages_api username repo_name) (pages_headers GITHUB_TOKEN)
                pages_payload)
             GotResponse
             (requests_post P (pages_api username repo_name) (pages_headers GITHUB_TOKEN)
                pages_payload) s of
        (Inl e, s1) \<Rightarrow> (Inl (Uncaught e), s1)
      | (Inr resp, s1) \<Rightarrow>
          if status_code resp \<noteq> 201 \<and> status_code resp \<noteq> 204 then
            (Inl (HTTPException 500
                    (lit ''Enabling Pages failed ('' @ str_int (status_code resp) @ lit ''): ''
                       @ resp_text resp)), s1)
          else (Inr (), s1))"

text \<open>
  Lines 92 to 102: \<open>requests.get\<close>, the test of its status code, \<open>info.json()\<close>, which
  may raise, \<open>.get("html_url")\<close>, which only a \<open>dict\<close> has, and the truth test of the
  value found. The result is the dictionary \<open>{"url": html_url}\<close>.
\<close>

definition deploy_fetch_pages ::
  "('w, 'r) provider \<Rightarrow> pystr \<Rightarrow> pystr \<Rightarrow> pystr \<Rightarrow> ('w, 'r) run
     \<Rightarrow> (failure + json_value) \<times> ('w, 'r) run" where
  "deploy_fetch_pages P GITHUB_TOKEN username repo_name s =
     (case perform
             (RequestsGet (pages_api username repo_name) (pages_headers GITHUB_TOKEN))
             GotResponse
             (requests_get P (pages_api username repo_name) (pages_headers GITHUB_TOKEN)) s of
        (Inl e, s1) \<Rightarrow> (Inl (Uncaught e), s1)
      | (Inr info, s1) \<Rightarrow>
          if status_code info \<noteq> 200 then
            (Inl (HTTPException 500
                    (lit ''Fetching Pages info failed ('' @ str_int (status_code info)
                       @ lit ''): '' @ resp_text info)), s1)
          else
            (case json info of
               Inl e \<Rightarrow> (Inl (Uncaught e), s1)
             | Inr (JObj kvs) \<Rightarrow>
                 let html_url = dict_get kvs (lit ''html_url'') in
                 if \<not> truthy html_url then
                   (Inl (HTTPException 500 (lit ''No html_url in Pages response'')), s1)
                 else (Inr (JObj [(lit ''url'', html_url)]), s1)
             | Inr v \<Rightarrow>
                 (Inl (Uncaught (AttributeError
                    ([39] @ type_name v @ [39] @ lit '' object has no attribute ''
                       @ [39] @ lit ''get'' @ [39]))),
                  s1)))"

text \<open>
  The handler, lines 31 to 102. \<open>GITHUB_TOKEN\<close> is the module's global; the run starts in
  the world \<open>w\<close> with no call made.
\<close>

definition deploy ::
  "('w, 'r) provider \<Rightarrow> pystr \<Rightarrow> DeployRequest \<Rightarrow> 'w \<Rightarrow> (failure + json_value) \<times> ('w, 'r) run"
  where
  "deploy P GITHUB_TOKEN req w =
     (if strip (html req) = [] then
        (Inl (HTTPException 400 (lit ''Empty HTML content provided'')), (w, []))
      else
        (case deploy_get_user P GITHUB_TOKEN (w, []) of
           (Inl f, s0) \<Rightarrow> (Inl f, s0)
         | (Inr u, s0) \<Rightarrow>
             (case deploy_login P u s0 of
                (Inl f, s1) \<Rightarrow> (Inl f, s1)
              | (Inr username, s1) \<Rightarrow>
                  (case deploy_get_repo P u (repoName req) s1 of
                     (Inl f, s2) \<Rightarrow> (Inl f, s2)
                   | (Inr repo, s2) \<Rightarrow>
                       (case deploy_push P repo (html req) (deploy_sleep s2) of
                          (Inl f, s3) \<Rightarrow> (Inl f, s3)
                        | (Inr _, s3) \<Rightarrow>
                            (case deploy_enable_pages P GITHUB_TOKEN username (repoName req) s3 of
                               (Inl f, s4) \<Rightarrow> (Inl f, s4)
                             | (Inr _, s4) \<Rightarrow>
                                 deploy_fetch_pages P GITHUB_TOKEN username (repoName req)
                                   s4))))))"

text \<open>What a run ends with, and the calls it made, in order.\<close>

definition outcome ::
  "('w, 'r) provider \<Rightarrow> pystr \<Rightarrow> DeployRequest \<Rightarrow> 'w \<Rightarrow> failure + json_value" where
  "outcome P GITHUB_TOKEN req w = fst (deploy P GITHUB_TOKEN req w)"

definition trace :: "('w, 'r) provider \<Rightarrow> pystr \<Rightarrow> DeployRequest \<Rightarrow> 'w \<Rightarrow> 'r event list" where
  "trace P GITHUB_TOKEN req w = snd (snd (deploy P GITHUB_TOKEN req w))"

section \<open>Reading a trace\<close>

fun is_create_repo :: "'r call \<Rightarrow> bool" where
  "is_create_repo (CreateRepo u n a) = True"
| "is_create_repo c = False"

fun is_update_file :: "'r call \<Rightarrow> bool" where
  "is_update_file (UpdateFile r p m c h b) = True"
| "is_update_file c = False"

fun is_create_file :: "'r call \<Rightarrow> bool" where
  "is_create_file (CreateFile r p m c b) = True"
| "is_create_file c = False"

fun is_pages_fetch :: "'r call \<Rightarrow> bool" where
  "is_pages_fetch (RequestsGet url hs) = True"
| "is_pages_fetch c = False"

text \<open>
  A call has failed when it raised, with two exceptions that belong to the normal course
  of a deployment: the repository lookup reporting that the repository does not exist (a
  \<open>GithubException\<close> with status 404), and the content lookup reporting that the file does
  not exist (an \<open>UnknownObjectException\<close>).
\<close>

fun failed :: "'r event \<Rightarrow> bool" where
  "failed (GetRepo u n, Raised e) = (\<not> (is_GithubException e \<and> status e = Some 404))"
| "failed (GetContents r p b, Raised e) = (\<not> is_UnknownObjectException e)"
| "failed (c, Raised e) = True"
| "failed (c, r) = False"

text \<open>The happy path: the run returns its result and none of its calls has failed.\<close>

definition happy_path :: "('w, 'r) provider \<Rightarrow> pystr \<Rightarrow> DeployRequest \<Rightarrow> 'w \<Rightarrow> bool" where
  "happy_path P GITHUB_TOKEN req w \<longleftrightarrow>
     \<not> isl (outcome P GITHUB_TOKEN req w) \<and>
     list_all (\<lambda>ev. \<not> failed ev) (trace P GITHUB_TOKEN req w)"

section \<open>Concrete providers\<close>

text \<open>
  Scripted providers for running the handler on concrete requests. The world is the
  number of calls answered so far; a repository object is its full name.
\<close>

definition demo_token :: pystr where
  "demo_token = lit ''ghp_demo''"

definition demo_user :: user where
  "demo_user = \<lparr>login = lit ''user''\<rparr>"

definition demo_request :: DeployRequest where
  "demo_request = \<lparr>repoName = lit ''demo-site'', html = lit ''<h1>Hi</h1>''\<rparr>"

definition not_found :: py_exception where
  "not_found = UnknownObjectException 404 (lit ''404 Not Found'')"

text \<open>
  The repository does not exist: the lookup reports 404, the creation succeeds, the new
  repository has no \<open>index.html\<close>, Pages is enabled with 201 and fetched with 200.
\<close>

definition fresh_provider :: "(nat, pystr) provider" where
  "fresh_provider =
     \<lparr>get_user = (\<lambda>tok w. (Inr demo_user, Suc w)),
      user_login = (\<lambda>u w. (Inr (login u), Suc w)),
      get_repo = (\<lambda>u n w. (Inl not_found, Suc w)),
      create_repo = (\<lambda>u n auto_init w. (Inr (login u @ lit ''/'' @ n), Suc w)),
      get_contents = (\<lambda>r p b w. (Inl not_found, Suc w)),
      update_file = (\<lambda>r p m c h b w. (Inr (), Suc w)),
      create_file = (\<lambda>r p m c b w. (Inr (), Suc w)),
      requests_post = (\<lambda>url hs pl w.
        (Inr \<lparr>status_code = 201, resp_text = lit ''Created'', json = Inr JNull\<rparr>, Suc w)),
      requests_get = (\<lambda>url hs w.
        (Inr \<lparr>status_code = 200, resp_text = lit ''OK'',
              json = Inr (JObj [(lit ''status'', JStr (lit ''built'')),
                                (lit ''html_url'',
                                 JStr (lit ''https://user.github.io/demo-site/''))])\<rparr>,
         Suc w))\<rparr>"

text \<open>The repository and its \<open>index.html\<close> exist.\<close>

definition demo_file :: content_file where
  "demo_file = \<lparr>sha = lit ''3b18e512dba79e4c8300dd08aeb37f8e728b8dad''\<rparr>"

definition existing_provider :: "(nat, pystr) provider" where
  "existing_provider =
     fresh_provider
       \<lparr>get_repo := (\<lambda>u n w. (Inr (login u @ lit ''/'' @ n), Suc w)),
        get_contents := (\<lambda>r p b w. (Inr demo_file, Suc w))\<rparr>"

text \<open>
  The provider rejects the credential. With an eager library \<open>g.get_user()\<close> raises; with
  a lazy one it returns an object without asking the provider, and the read of
  \<open>user.login\<close> raises.
\<close>

definition bad_credentials :: py_exception where
  "bad_credentials = GithubException 401 (lit ''401 Bad credentials'')"

definition rejecting_provider :: "(nat, pystr) provider" where
  "rejecting_provider = fresh_provider\<lparr>get_user := (\<lambda>tok w. (Inl bad_credentials, Suc w))\<rparr>"

definition lazy_rejecting_provider :: "(nat, pystr) provider" where
  "lazy_rejecting_provider =
     fresh_provider
       \<lparr>get_user := (\<lambda>tok w. (Inr demo_user, w)),
        user_login := (\<lambda>u w. (Inl bad_credentials, Suc w))\<rparr>"

text \<open>Pages cannot be enabled: the request is answered with 409.\<close>

definition conflict_response :: response where
  "conflict_response = \<lparr>status_code = 409, resp_text = lit ''Conflict'', json = Inr JNull\<rparr>"

definition refusing_provider :: "(nat, pystr) provider" where
  "refusing_provider =
     existing_provider\<lparr>requests_post := (\<lambda>url hs pl w. (Inr conflict_response, Suc w))\<rparr>"

text \<open>The Pages configuration is fetched with 200, and its JSON object has no \<open>html_url\<close>.\<close>

definition no_url_response :: response where
  "no_url_response =
     \<lparr>status_code = 200, resp_text = lit ''OK'',
      json = Inr (JObj [(lit ''status'', JStr (lit ''built''))])\<rparr>"

definition no_url_provider :: "(nat, pystr) provider" where
  "no_url_provider =
     existing_provider\<lparr>requests_get := (\<lambda>url hs w. (Inr no_url_response, Suc w))\<rparr>"

text \<open>The Pages configuration is fetched with 200, and its JSON body is \<open>null\<close>.\<close>

definition null_body_response :: response where
  "null_body_response = \<lparr>status_code = 200, resp_text = lit ''null'', json = Inr JNull\<rparr>"

definition null_body_provider :: "(nat, pystr) provider" where
  "null_body_provider =
     existing_provider\<lparr>requests_get := (\<lambda>url hs w. (Inr null_body_response, Suc w))\<rparr>"

text \<open>The repository lookup fails with 403.\<close>

definition forbidden :: py_exception where
  "forbidden = GithubException 403 (lit ''403 Forbidden'')"

definition forbidden_provider :: "(nat, pystr) provider" where
  "forbidden_provider = fresh_provider\<lparr>get_repo := (\<lambda>u n w. (Inl forbidden, Suc w))\<rparr>"

text \<open>The provider refuses to create the file, or the repository, with 422.\<close>

definition unprocessable :: py_exception where
  "unprocessable = GithubException 422 (lit ''422 Unprocessable Entity'')"

definition create_file_failing_provider :: "(nat, pystr) provider" where
  "create_file_failing_provider =
     fresh_provider\<lparr>create_file := (\<lambda>r p m c b w. (Inl unprocessable, Suc w))\<rparr>"

definition create_repo_failing_provider :: "(nat, pystr) provider" where
  "create_repo_failing_provider =
     fresh_provider\<lparr>create_repo := (\<lambda>u n auto_init w. (Inl unprocessable, Suc w))\<rparr>"

text \<open>A request with the empty repository name, and one whose HTML has whitespace around it.\<close>

definition unnamed_request :: DeployRequest where
  "unnamed_request = \<lparr>repoName = [], html = lit ''<h1>Hi</h1>''\<rparr>"

definition padded_request :: DeployRequest where
  "padded_request =
     \<lparr>repoName = lit ''demo-site'', html = [32, 10] @ lit ''<h1>Hi</h1>'' @ [10]\<rparr>"

section \<open>The stages, case by case\<close>

lemma lit_eq_iff [simp]: "lit a = lit b \<longleftrightarrow> a = b"
  unfolding lit_def using inj_of_char [where 'a = nat] by simp

lemma strip_blank:
  assumes "\<forall>c\<in>set s. isspace c"
  shows "strip s = []"
proof -
  from assms have "dropWhile isspace s = []"
    by simp
  then show ?thesis
    unfolding strip_def by (simp only: rev.simps dropWhile.simps)
qed

lemma deploy_get_user_cases:
  assumes "deploy_get_user P tok s = (r, s')"
  obtains (rejected) e where "r = Inl (HTTPException 401 (lit ''Invalid GitHub token''))"
      "snd s' = snd s @ [(GetUser tok, Raised e)]"
  | (accepted) u where "r = Inr u" "snd s' = snd s @ [(GetUser tok, GotUser u)]"
  using assms unfolding deploy_get_user_def perform_def
  by (auto split: prod.splits sum.splits)

lemma deploy_login_cases:
  assumes "deploy_login P u s = (r, s')"
  obtains (raised) e where "r = Inl (Uncaught e)" "snd s' = snd s"
  | (read) username where "r = Inr username" "snd s' = snd s"
  using assms unfolding deploy_login_def
  by (auto split: prod.splits sum.splits)

lemma deploy_get_repo_cases:
  assumes "deploy_get_repo P u n s = (r, s')"
  obtains (found) repo where "r = Inr repo" "snd s' = snd s @ [(GetRepo u n, GotRepo repo)]"
  | (created) e repo where "is_GithubException e" "status e = Some 404" "r = Inr repo"
      "snd s' = snd s @ [(GetRepo u n, Raised e), (CreateRepo u n True, GotRepo repo)]"
  | (create_raised) e e' where "is_GithubException e" "status e = Some 404"
      "r = Inl (Uncaught e')"
      "snd s' = snd s @ [(GetRepo u n, Raised e), (CreateRepo u n True, Raised e')]"
  | (access_error) e where "is_GithubException e" "status e \<noteq> Some 404"
      "r = Inl (HTTPException 400 (lit ''Repo access error: '' @ exc_str e))"
      "snd s' = snd s @ [(GetRepo u n, Raised e)]"
  | (lookup_raised) e where "\<not> is_GithubException e" "r = Inl (Uncaught e)"
      "snd s' = snd s @ [(GetRepo u n, Raised e)]"
  using assms unfolding deploy_get_repo_def perform_def
  by (auto split: prod.splits sum.splits if_splits)

lemma deploy_push_except_cases:
  assumes "deploy_push_except P repo c e s = (r, s')"
  obtains (created) "is_UnknownObjectException e" "r = Inr ()"
      "snd s' = snd s @
         [(CreateFile repo (lit ''index.html'') (lit ''Add index.html'') c (lit ''main''), Done)]"
  | (create_raised) e' where "is_UnknownObjectException e" "r = Inl (Uncaught e')"
      "snd s' = snd s @
         [(CreateFile repo (lit ''index.html'') (lit ''Add index.html'') c (lit ''main''),
           Raised e')]"
  | (wrapped) "\<not> is_UnknownObjectException e"
      "r = Inl (HTTPException 500 (lit ''Failed to push index.html: '' @ exc_str e))"
      "snd s' = snd s"
  using assms unfolding deploy_push_except_def perform_def
  by (auto split: prod.splits sum.splits if_splits)

lemma deploy_push_cases:
  assumes "deploy_push P repo c s = (r, s')"
  obtains (updated) existing where "r = Inr ()"
      "snd s' = snd s @
         [(GetContents repo (lit ''index.html'') (lit ''main''), GotContents existing),
          (UpdateFile repo (lit ''index.html'') (lit ''Update index.html'') c (sha existing)
             (lit ''main''), Done)]"
  | (lookup_raised) e s1 where
      "snd s1 = snd s @ [(GetContents repo (lit ''index.html'') (lit ''main''), Raised e)]"
      "deploy_push_except P repo c e s1 = (r, s')"
  | (update_raised) existing e s2 where
      "snd s2 = snd s @
         [(GetContents repo (lit ''index.html'') (lit ''main''), GotContents existing),
          (UpdateFile repo (lit ''index.html'') (lit ''Update index.html'') c (sha existing)
             (lit ''main''), Raised e)]"
      "deploy_push_except P repo c e s2 = (r, s')"
  using assms unfolding deploy_push_def perform_def
  by (auto split: prod.splits sum.splits if_splits)

lemma deploy_enable_pages_cases:
  assumes "deploy_enable_pages P tok un n s = (r, s')"
  obtains (raised) e where "r = Inl (Uncaught e)"
      "snd s' = snd s @
         [(RequestsPost (pages_api un n) (pages_headers tok) pages_payload, Raised e)]"
  | (refused) resp where "status_code resp \<noteq> 201" "status_code resp \<noteq> 204"
      "r = Inl (HTTPException 500 (lit ''Enabling Pages failed ('' @ str_int (status_code resp)
             @ lit ''): '' @ resp_text resp))"
      "snd s' = snd s @
         [(RequestsPost (pages_api un n) (pages_headers tok) pages_payload, GotResponse resp)]"
  | (enabled) resp where "status_code resp = 201 \<or> status_code resp = 204" "r = Inr ()"
      "snd s' = snd s @
         [(RequestsPost (pages_api un n) (pages_headers tok) pages_payload, GotResponse resp)]"
  using assms unfolding deploy_enable_pages_def perform_def
  by (auto split: prod.splits sum.splits if_splits) blast+

lemma deploy_fetch_pages_cases:
  assumes "deploy_fetch_pages P tok un n s = (r, s')"
  obtains (raised) e where "r = Inl (Uncaught e)"
      "snd s' = snd s @ [(RequestsGet (pages_api un n) (pages_headers tok), Raised e)]"
  | (refused) info where "status_code info \<noteq> 200"
      "r = Inl (HTTPException 500 (lit ''Fetching Pages info failed (''
             @ str_int (status_code info) @ lit ''): '' @ resp_text info))"
      "snd s' = snd s @ [(RequestsGet (pages_api un n) (pages_headers tok), GotResponse info)]"
  | (json_raised) info e where "status_code info = 200" "json info = Inl e"
      "r = Inl (Uncaught e)"
      "snd s' = snd s @ [(RequestsGet (pages_api un n) (pages_headers tok), GotResponse info)]"
  | (not_dict) info v e where "status_code info = 200" "json info = Inr v"
      "\<forall>kvs. v \<noteq> JObj kvs" "r = Inl (Uncaught e)"
      "snd s' = snd s @ [(RequestsGet (pages_api un n) (pages_headers tok), GotResponse info)]"
  | (no_url) info kvs where "status_code info = 200" "json info = Inr (JObj kvs)"
      "\<not> truthy (dict_get kvs (lit ''html_url''))"
      "r = Inl (HTTPException 500 (lit ''No html_url in Pages response''))"
      "snd s' = snd s @ [(RequestsGet (pages_api un n) (pages_headers tok), GotResponse info)]"
  | (fetched) info kvs where "status_code info = 200" "json info = Inr (JObj kvs)"
      "truthy (dict_get kvs (lit ''html_url''))"
      "r = Inr (JObj [(lit ''url'', dict_get kvs (lit ''html_url''))])"
      "snd s' = snd s @ [(RequestsGet (pages_api un n) (pages_headers tok), GotResponse info)]"
  using assms unfolding deploy_fetch_pages_def perform_def
  by (auto simp: Let_def split: prod.splits sum.splits if_splits json_value.splits)

lemma deploy_cases:
  assumes "deploy P tok req w = (res, s)"
  obtains (blank) "strip (html req) = []"
      "res = Inl (HTTPException 400 (lit ''Empty HTML content provided''))" "s = (w, [])"
  | (auth) f where "strip (html req) \<noteq> []" "deploy_get_user P tok (w, []) = (Inl f, s)"
      "res = Inl f"
  | (login) u s0 f where "strip (html req) \<noteq> []"
      "deploy_get_user P tok (w, []) = (Inr u, s0)"
      "deploy_login P u s0 = (Inl f, s)" "res = Inl f"
  | (repo) u s0 un s1 f where "strip (html req) \<noteq> []"
      "deploy_get_user P tok (w, []) = (Inr u, s0)"
      "deploy_login P u s0 = (Inr un, s1)"
      "deploy_get_repo P u (repoName req) s1 = (Inl f, s)" "res = Inl f"
  | (push) u s0 un s1 repo s2 f where "strip (html req) \<noteq> []"
      "deploy_get_user P tok (w, []) = (Inr u, s0)"
      "deploy_login P u s0 = (Inr un, s1)"
      "deploy_get_repo P u (repoName req) s1 = (Inr repo, s2)"
      "deploy_push P repo (html req) (deploy_sleep s2) = (Inl f, s)" "res = Inl f"
  | (enable) u s0 un s1 repo s2 s3 f where "strip (html req) \<noteq> []"
      "deploy_get_user P tok (w, []) = (Inr u, s0)"
      "deploy_login P u s0 = (Inr un, s1)"
      "deploy_get_repo P u (repoName req) s1 = (Inr repo, s2)"
      "deploy_push P repo (html req) (deploy_sleep s2) = (Inr (), s3)"
      "deploy_enable_pages P tok un (repoName req) s3 = (Inl f, s)" "res = Inl f"
  | (fetch) u s0 un s1 repo s2 s3 s4 where "strip (html req) \<noteq> []"
      "deploy_get_user P tok (w, []) = (Inr u, s0)"
      "deploy_login P u s0 = (Inr un, s1)"
      "deploy_get_repo P u (repoName req) s1 = (Inr repo, s2)"
      "deploy_push P repo (html req) (deploy_sleep s2) = (Inr (), s3)"
      "deploy_enable_pages P tok un (repoName req) s3 = (Inr (), s4)"
      "deploy_fetch_pages P tok un (repoName req) s4 = (res, s)"
  using assms unfolding deploy_def
  by (auto split: prod.splits sum.splits if_splits)

text \<open>
  Up to the pause no file operation has been made, and no content lookup either.
\<close>

lemma before_push:
  assumes "deploy_get_user P tok (w, []) = (Inr u, s0)"
    and "deploy_login P u s0 = (Inr un, s1)"
    and "deploy_get_repo P u n s1 = (Inr repo, s2)"
  shows "\<forall>ev\<in>set (snd (deploy_sleep s2)).
           \<not> is_update_file (fst ev) \<and> \<not> is_create_file (fst ev)"
    and "(GetContents r p b, rep) \<notin> set (snd (deploy_sleep s2))"
  using assms
  by (auto simp: deploy_sleep_def
      elim!: deploy_get_user_cases deploy_login_cases deploy_get_repo_cases)

lemma dict_get_absent: "k \<notin> fst ` set kvs \<Longrightarrow> dict_get kvs k = JNull"
  using map_of_eq_None_iff [of kvs k] by (simp add: dict_get_def)

lemma str_int_409: "str_int 409 = lit ''409''"
  by (simp add: str_int_def digits.simps [of 409] digits.simps [of 40] digits.simps [of 4]
      lit_def)

lemmas stage_cases =
  deploy_get_user_cases deploy_login_cases deploy_get_repo_cases deploy_push_cases deploy_push_except_cases
  deploy_enable_pages_cases deploy_fetch_pages_cases

text \<open>The definitions a run on a concrete provider unfolds.\<close>

lemmas run_defs =
  outcome_def trace_def deploy_def deploy_get_user_def deploy_login_def deploy_get_repo_def
  deploy_sleep_def
  deploy_push_def deploy_push_except_def deploy_enable_pages_def deploy_fetch_pages_def
  perform_def pages_api_def pages_headers_def pages_payload_def dict_get_def strip_def
  isspace_def

lemmas demo_defs =
  demo_token_def demo_user_def demo_request_def demo_file_def not_found_def bad_credentials_def
  fresh_provider_def existing_provider_def rejecting_provider_def lazy_rejecting_provider_def
  null_body_response_def null_body_provider_def conflict_response_def
  refusing_provider_def no_url_response_def no_url_provider_def forbidden_def
  forbidden_provider_def unprocessable_def create_file_failing_provider_def
  create_repo_failing_provider_def unnamed_request_def padded_request_def

section \<open>Validation of the request\<close>

text \<open>
  C1. A request whose \<open>html\<close> is empty or consists of whitespace only fails with the
  \<open>HTTPException\<close> of status 400, and the run makes no external call: its trace is empty
  and the world is the one it started in.
\<close>

theorem deploy_blank_html:
  assumes "\<forall>c\<in>set (html req). isspace c"
  shows "deploy P GITHUB_TOKEN req w =
           (Inl (HTTPException 400 (lit ''Empty HTML content provided'')), (w, []))"
  using strip_blank [OF assms] by (simp add: deploy_def)

theorem deploy_blank_html_witness:
  "list_all isspace (html \<lparr>repoName = lit ''demo-site'', html = [32, 10, 9, 12288]\<rparr>) \<and>
   deploy fresh_provider demo_token \<lparr>repoName = lit ''demo-site'', html = [32, 10, 9, 12288]\<rparr> 0 =
     (Inl (HTTPException 400 (lit ''Empty HTML content provided'')), (0, []))"
proof -
  have h: "\<forall>c\<in>set (html \<lparr>repoName = lit ''demo-site'', html = [32, 10, 9, 12288]\<rparr>). isspace c"
    by (simp add: isspace_def)
  from deploy_blank_html [OF h, of fresh_provider demo_token 0] h show ?thesis
    by (simp add: list_all_iff)
qed

section \<open>Authentication\<close>

text \<open>
  C7. A rejected credential is not always surfaced with status 401. The \<open>try\<close> statement
  of lines 38 to 41 covers \<open>g.get_user()\<close> only. With a lazy user object that call returns
  without asking the provider, the provider's rejection is raised by the read of
  \<open>user.login\<close> at line 43, outside the \<open>try\<close>, and it leaves the handler uncaught. No
  later step is performed.
\<close>

theorem deploy_rejected_at_login_uncaught:
  "outcome lazy_rejecting_provider demo_token demo_request 0 = Inl (Uncaught bad_credentials) \<and>
   trace lazy_rejecting_provider demo_token demo_request 0 =
     [(GetUser demo_token, GotUser demo_user)]"
  by (simp add: run_defs demo_defs lit_def)

text \<open>
  What the \<open>try\<close> statement does cover: in every run in which \<open>g.get_user()\<close> itself
  raises, \<open>deploy\<close> fails with the \<open>HTTPException\<close> of status 401, and the rejected call
  is the only call of the run.
\<close>

lemma deploy_rejected_credential:
  assumes "(GetUser t, Raised e) \<in> set (trace P GITHUB_TOKEN req w)"
  shows "outcome P GITHUB_TOKEN req w = Inl (HTTPException 401 (lit ''Invalid GitHub token'')) \<and>
         trace P GITHUB_TOKEN req w = [(GetUser GITHUB_TOKEN, Raised e)]"
proof -
  obtain res s where d: "deploy P GITHUB_TOKEN req w = (res, s)"
    by (cases "deploy P GITHUB_TOKEN req w")
  with assms have m: "(GetUser t, Raised e) \<in> set (snd s)"
    by (simp add: trace_def)
  from d m have "res = Inl (HTTPException 401 (lit ''Invalid GitHub token'')) \<and>
      snd s = [(GetUser GITHUB_TOKEN, Raised e)]"
    by (cases rule: deploy_cases) (auto simp: deploy_sleep_def elim!: stage_cases)
  with d show ?thesis
    by (simp add: outcome_def trace_def)
qed

lemma deploy_rejected_credential_witness:
  "(GetUser demo_token, Raised bad_credentials)
     \<in> set (trace rejecting_provider demo_token demo_request 0) \<and>
   outcome rejecting_provider demo_token demo_request 0 =
     Inl (HTTPException 401 (lit ''Invalid GitHub token'')) \<and>
   trace rejecting_provider demo_token demo_request 0 =
     [(GetUser demo_token, Raised bad_credentials)]"
proof -
  have h: "(GetUser demo_token, Raised bad_credentials)
      \<in> set (trace rejecting_provider demo_token demo_request 0)"
    by (simp add: run_defs demo_defs lit_def)
  from deploy_rejected_credential [OF h] h show ?thesis
    by simp
qed

section \<open>The repository name\<close>

text \<open>
  C9. The claim that a request with the empty \<open>repoName\<close> is rejected before the provider
  is contacted does not hold: the handler never inspects \<open>repoName\<close>. In every run in which
  the credential is accepted, that is, \<open>g.get_user()\<close> returns and \<open>user.login\<close> is read,
  the second call of the run is the repository lookup, made with the request's \<open>repoName\<close>
  as it is, the empty string included.
\<close>

theorem deploy_looks_up_any_repo_name:
  assumes "strip (html req) \<noteq> []"
    and "get_user P GITHUB_TOKEN w = (Inr u, w1)"
    and "user_login P u w1 = (Inr username, w2)"
  shows "\<exists>rep. trace P GITHUB_TOKEN req w ! 1 = (GetRepo u (repoName req), rep) \<and>
           1 < length (trace P GITHUB_TOKEN req w)"
proof -
  have g: "deploy_get_user P GITHUB_TOKEN (w, []) =
      (Inr u, (w1, [(GetUser GITHUB_TOKEN, GotUser u)]))"
    using assms(2) by (simp add: deploy_get_user_def perform_def)
  have l: "deploy_login P u (w1, [(GetUser GITHUB_TOKEN, GotUser u)]) =
      (Inr username, (w2, [(GetUser GITHUB_TOKEN, GotUser u)]))"
    using assms(3) by (simp add: deploy_login_def)
  obtain res s where d: "deploy P GITHUB_TOKEN req w = (res, s)"
    by (cases "deploy P GITHUB_TOKEN req w")
  from d assms(1)
  have "\<exists>rep. snd s ! 1 = (GetRepo u (repoName req), rep) \<and> 1 < length (snd s)"
    by (cases rule: deploy_cases)
      (auto simp: g l deploy_sleep_def nth_append
        elim!: deploy_get_repo_cases deploy_push_cases deploy_push_except_cases
          deploy_enable_pages_cases deploy_fetch_pages_cases)
  with d show ?thesis
    by (simp add: trace_def)
qed

theorem deploy_looks_up_any_repo_name_witness:
  "strip (html unnamed_request) \<noteq> [] \<and>
   get_user create_repo_failing_provider demo_token 0 = (Inr demo_user, 1) \<and>
   user_login create_repo_failing_provider demo_user 1 = (Inr (lit ''user''), 2) \<and>
   (\<exists>rep. trace create_repo_failing_provider demo_token unnamed_request 0 ! 1 =
            (GetRepo demo_user (repoName unnamed_request), rep) \<and>
          1 < length (trace create_repo_failing_provider demo_token unnamed_request 0))"
proof -
  have h1: "strip (html unnamed_request) \<noteq> []"
    by (simp add: unnamed_request_def strip_def isspace_def lit_def)
  have h2: "get_user create_repo_failing_provider demo_token 0 = (Inr demo_user, 1)"
    by (simp add: demo_defs)
  have h3: "user_login create_repo_failing_provider demo_user 1 = (Inr (lit ''user''), 2)"
    by (simp add: demo_defs)
  show ?thesis
    by (intro conjI h1 h2 h3) (rule deploy_looks_up_any_repo_name [OF h1 h2 h3])
qed

text \<open>
  The request with the empty name, on a provider that has no such repository and refuses to
  create one: the lookup and the creation are both called with the empty name, and the run
  ends with the provider's exception, not with a validation error.
\<close>

theorem deploy_empty_repo_name_reaches_provider:
  "repoName unnamed_request = [] \<and>
   outcome create_repo_failing_provider demo_token unnamed_request 0 =
     Inl (Uncaught unprocessable) \<and>
   trace create_repo_failing_provider demo_token unnamed_request 0 =
     [(GetUser demo_token, GotUser demo_user),
      (GetRepo demo_user [], Raised not_found),
      (CreateRepo demo_user [] True, Raised unprocessable)]"
  by (simp add: run_defs demo_defs lit_def)

section \<open>The repository\<close>

text \<open>
  C6. The claim that a repository lookup failing with another signal than not-found
  surfaces with status 500 does not hold: line 53 raises the \<open>HTTPException\<close> with status
  400. In every run in which the lookup raises a \<open>GithubException\<close> whose status is not
  404, \<open>deploy\<close> fails with status 400 and the detail \<open>Repo access error: \<close> followed by the
  text of the exception, and the lookup is the last call of the run.
\<close>

theorem deploy_repo_access_error:
  assumes "(GetRepo u n, Raised e) \<in> set (trace P GITHUB_TOKEN req w)"
    and "is_GithubException e"
    and "status e \<noteq> Some 404"
  shows "outcome P GITHUB_TOKEN req w =
           Inl (HTTPException 400 (lit ''Repo access error: '' @ exc_str e)) \<and>
         trace P GITHUB_TOKEN req w =
           [(GetUser GITHUB_TOKEN, GotUser u), (GetRepo u (repoName req), Raised e)]"
proof -
  obtain res s where d: "deploy P GITHUB_TOKEN req w = (res, s)"
    by (cases "deploy P GITHUB_TOKEN req w")
  with assms have m: "(GetRepo u n, Raised e) \<in> set (snd s)"
    by (simp add: trace_def)
  from d m assms(2,3)
  have "res = Inl (HTTPException 400 (lit ''Repo access error: '' @ exc_str e)) \<and>
      snd s = [(GetUser GITHUB_TOKEN, GotUser u), (GetRepo u (repoName req), Raised e)]"
    by (cases rule: deploy_cases) (auto simp: deploy_sleep_def elim!: stage_cases)
  with d show ?thesis
    by (simp add: outcome_def trace_def)
qed

theorem deploy_repo_access_error_witness:
  "(GetRepo demo_user (lit ''demo-site''), Raised forbidden)
     \<in> set (trace forbidden_provider demo_token demo_request 0) \<and>
   is_GithubException forbidden \<and> status forbidden \<noteq> Some 404 \<and>
   outcome forbidden_provider demo_token demo_request 0 =
     Inl (HTTPException 400 (lit ''Repo access error: '' @ exc_str forbidden)) \<and>
   trace forbidden_provider demo_token demo_request 0 =
     [(GetUser demo_token, GotUser demo_user),
      (GetRepo demo_user (repoName demo_request), Raised forbidden)]"
proof -
  have h: "(GetRepo demo_user (lit ''demo-site''), Raised forbidden)
      \<in> set (trace forbidden_provider demo_token demo_request 0)"
    by (simp add: run_defs demo_defs lit_def)
  have g: "is_GithubException forbidden" and st: "status forbidden \<noteq> Some 404"
    by (simp_all add: forbidden_def)
  from deploy_repo_access_error [OF h g st] h g st show ?thesis
    by simp
qed

text \<open>
  The lookup fails with 403, a signal that is not the not-found signal: the status the
  caller gets is 400, not 500.
\<close>

theorem deploy_repo_access_error_is_400:
  "(GetRepo demo_user (lit ''demo-site''), Raised forbidden)
     \<in> set (trace forbidden_provider demo_token demo_request 0) \<and>
   is_GithubException forbidden \<and> status forbidden = Some 403 \<and>
   outcome forbidden_provider demo_token demo_request 0 =
     Inl (HTTPException 400 (lit ''Repo access error: 403 Forbidden''))"
  by (simp add: run_defs demo_defs lit_def)

text \<open>
  C3. The repository does not exist: the lookup raises with status 404, and the content
  lookup in the repository just created reports that \<open>index.html\<close> is not there. On the
  happy path the run then makes exactly one repository creation, with the request's name
  and \<open>auto_init=True\<close>, exactly one file creation, with the request's HTML, and no file
  update.
\<close>

theorem deploy_creates_absent_repository:
  assumes "happy_path P GITHUB_TOKEN req w"
    and "(GetRepo u n, Raised e) \<in> set (trace P GITHUB_TOKEN req w)"
    and "status e = Some 404"
    and "(GetContents r p b, Raised e') \<in> set (trace P GITHUB_TOKEN req w)"
  shows "[c \<leftarrow> map fst (trace P GITHUB_TOKEN req w). is_create_repo c] =
           [CreateRepo u (repoName req) True] \<and>
         [c \<leftarrow> map fst (trace P GITHUB_TOKEN req w). is_create_file c] =
           [CreateFile r (lit ''index.html'') (lit ''Add index.html'') (html req)
              (lit ''main'')] \<and>
         [c \<leftarrow> map fst (trace P GITHUB_TOKEN req w). is_update_file c] = []"
proof -
  obtain res s where d: "deploy P GITHUB_TOKEN req w = (res, s)"
    by (cases "deploy P GITHUB_TOKEN req w")
  from assms(1) d have ok: "\<not> isl res" and nf: "\<forall>ev\<in>set (snd s). \<not> failed ev"
    by (simp_all add: happy_path_def outcome_def trace_def list_all_iff)
  from assms(2,4) d have m: "(GetRepo u n, Raised e) \<in> set (snd s)"
      "(GetContents r p b, Raised e') \<in> set (snd s)"
    by (simp_all add: trace_def)
  from d ok nf m
  have "[c \<leftarrow> map fst (snd s). is_create_repo c] = [CreateRepo u (repoName req) True] \<and>
        [c \<leftarrow> map fst (snd s). is_create_file c] =
          [CreateFile r (lit ''index.html'') (lit ''Add index.html'') (html req)
             (lit ''main'')] \<and>
        [c \<leftarrow> map fst (snd s). is_update_file c] = []"
    by (cases rule: deploy_cases) (auto simp: deploy_sleep_def elim!: stage_cases)
  with d show ?thesis
    by (simp add: trace_def)
qed

theorem deploy_creates_absent_repository_witness:
  "happy_path fresh_provider demo_token demo_request 0 \<and>
   (GetRepo demo_user (lit ''demo-site''), Raised not_found)
     \<in> set (trace fresh_provider demo_token demo_request 0) \<and>
   status not_found = Some 404 \<and>
   (GetContents (lit ''user/demo-site'') (lit ''index.html'') (lit ''main''), Raised not_found)
     \<in> set (trace fresh_provider demo_token demo_request 0) \<and>
   [c \<leftarrow> map fst (trace fresh_provider demo_token demo_request 0). is_create_repo c] =
     [CreateRepo demo_user (repoName demo_request) True] \<and>
   [c \<leftarrow> map fst (trace fresh_provider demo_token demo_request 0). is_create_file c] =
     [CreateFile (lit ''user/demo-site'') (lit ''index.html'') (lit ''Add index.html'')
        (html demo_request) (lit ''main'')] \<and>
   [c \<leftarrow> map fst (trace fresh_provider demo_token demo_request 0). is_update_file c] = []"
proof -
  have h1: "happy_path fresh_provider demo_token demo_request 0"
    by (simp add: happy_path_def run_defs demo_defs lit_def)
  have h2: "(GetRepo demo_user (lit ''demo-site''), Raised not_found)
      \<in> set (trace fresh_provider demo_token demo_request 0)"
    by (simp add: run_defs demo_defs lit_def)
  have h3: "status not_found = Some 404"
    by (simp add: not_found_def)
  have h4: "(GetContents (lit ''user/demo-site'') (lit ''index.html'') (lit ''main''),
       Raised not_found) \<in> set (trace fresh_provider demo_token demo_request 0)"
    by (simp add: run_defs demo_defs lit_def)
  show ?thesis
    by (intro conjI h1 h2 h3 h4)
      (rule deploy_creates_absent_repository [OF h1 h2 h3 h4, THEN conjunct1],
       rule deploy_creates_absent_repository [OF h1 h2 h3 h4, THEN conjunct2, THEN conjunct1],
       rule deploy_creates_absent_repository [OF h1 h2 h3 h4, THEN conjunct2, THEN conjunct2])
qed

section \<open>The file\<close>

text \<open>
  C2. The file \<open>index.html\<close> exists: the content lookup returns it. On the happy path the
  run then consists of calls \<open>pre\<close>, the content lookup, the update carrying the \<open>sha\<close> the
  lookup returned, and calls \<open>post\<close>, where neither \<open>pre\<close> nor \<open>post\<close> holds a file update
  or a file creation: there is exactly one update, right after the lookup, and no
  creation.
\<close>

theorem deploy_updates_existing_index:
  assumes "happy_path P GITHUB_TOKEN req w"
    and "(GetContents r p b, GotContents existing) \<in> set (trace P GITHUB_TOKEN req w)"
  shows "\<exists>pre post.
           trace P GITHUB_TOKEN req w =
             pre @
             [(GetContents r (lit ''index.html'') (lit ''main''), GotContents existing),
              (UpdateFile r (lit ''index.html'') (lit ''Update index.html'') (html req)
                 (sha existing) (lit ''main''), Done)] @
             post \<and>
           (\<forall>ev\<in>set (pre @ post). \<not> is_update_file (fst ev) \<and> \<not> is_create_file (fst ev))"
proof -
  obtain res s where d: "deploy P GITHUB_TOKEN req w = (res, s)"
    by (cases "deploy P GITHUB_TOKEN req w")
  from assms(1) d have ok: "\<not> isl res" and nf: "\<forall>ev\<in>set (snd s). \<not> failed ev"
    by (simp_all add: happy_path_def outcome_def trace_def list_all_iff)
  from assms(2) d have m: "(GetContents r p b, GotContents existing) \<in> set (snd s)"
    by (simp add: trace_def)
  from d ok have "\<exists>pre post.
           snd s =
             pre @
             [(GetContents r (lit ''index.html'') (lit ''main''), GotContents existing),
              (UpdateFile r (lit ''index.html'') (lit ''Update index.html'') (html req)
                 (sha existing) (lit ''main''), Done)] @
             post \<and>
           (\<forall>ev\<in>set (pre @ post). \<not> is_update_file (fst ev) \<and> \<not> is_create_file (fst ev))"
  proof (cases rule: deploy_cases)
    case (fetch u s0 un s1 repo s2 s3 s4)
    note pre = before_push(1) [OF fetch(2,3,4)]
    note nogc = before_push(2) [OF fetch(2,3,4), of r p b "GotContents existing"]
    from fetch(6) obtain e4 where
      t4: "snd s4 = snd s3 @ [(RequestsPost (pages_api un (repoName req))
                                 (pages_headers GITHUB_TOKEN) pages_payload, e4)]"
      by (auto elim: deploy_enable_pages_cases)
    from fetch(7) obtain e5 where
      t5: "snd s = snd s4 @ [(RequestsGet (pages_api un (repoName req))
                                (pages_headers GITHUB_TOKEN), e5)]"
      by (auto elim: deploy_fetch_pages_cases)
    from fetch(5) show ?thesis
    proof (cases rule: deploy_push_cases)
      case (updated existing')
      with t4 t5 m nogc have same: "existing' = existing" "repo = r"
        by auto
      show ?thesis
        apply (rule exI [of _ "snd (deploy_sleep s2)"])
        apply (rule exI [of _ "[(RequestsPost (pages_api un (repoName req))
                                   (pages_headers GITHUB_TOKEN) pages_payload, e4),
                                (RequestsGet (pages_api un (repoName req))
                                   (pages_headers GITHUB_TOKEN), e5)]"])
        using updated t4 t5 same pre by simp
    next
      case (lookup_raised e s1')
      from lookup_raised(2) lookup_raised(1) t4 t5 m nogc show ?thesis
        by (auto elim!: deploy_push_except_cases)
    next
      case (update_raised existing' e s2')
      from update_raised(2) update_raised(1) t4 t5 nf show ?thesis
        by (auto elim!: deploy_push_except_cases)
    qed
  qed simp_all
  with d show ?thesis
    by (simp add: trace_def)
qed

theorem deploy_updates_existing_index_witness:
  "happy_path existing_provider demo_token demo_request 0 \<and>
   (GetContents (lit ''user/demo-site'') (lit ''index.html'') (lit ''main''),
    GotContents demo_file) \<in> set (trace existing_provider demo_token demo_request 0) \<and>
   (\<exists>pre post.
      trace existing_provider demo_token demo_request 0 =
        pre @
        [(GetContents (lit ''user/demo-site'') (lit ''index.html'') (lit ''main''),
          GotContents demo_file),
         (UpdateFile (lit ''user/demo-site'') (lit ''index.html'') (lit ''Update index.html'')
            (html demo_request) (sha demo_file) (lit ''main''), Done)] @
        post \<and>
      (\<forall>ev\<in>set (pre @ post). \<not> is_update_file (fst ev) \<and> \<not> is_create_file (fst ev)))"
proof -
  have h1: "happy_path existing_provider demo_token demo_request 0"
    by (simp add: happy_path_def run_defs demo_defs lit_def)
  have h2: "(GetContents (lit ''user/demo-site'') (lit ''index.html'') (lit ''main''),
      GotContents demo_file) \<in> set (trace existing_provider demo_token demo_request 0)"
    by (simp add: run_defs demo_defs lit_def)
  show ?thesis
    by (rule conjI [OF h1 conjI [OF h2 deploy_updates_existing_index [OF h1 h2]]])
qed

text \<open>
  C10. Whatever file update or file creation a run makes, its content is the request's
  \<open>html\<close> itself, and its path is \<open>index.html\<close>: the stripped string serves the test of
  line 33 only.
\<close>

theorem deploy_pushes_html_verbatim:
  assumes "(UpdateFile r p m c h b, rep) \<in> set (trace P GITHUB_TOKEN req w) \<or>
           (CreateFile r p m c b, rep) \<in> set (trace P GITHUB_TOKEN req w)"
  shows "c = html req \<and> p = lit ''index.html''"
proof -
  obtain res s where d: "deploy P GITHUB_TOKEN req w = (res, s)"
    by (cases "deploy P GITHUB_TOKEN req w")
  with assms have m: "(UpdateFile r p m c h b, rep) \<in> set (snd s) \<or>
      (CreateFile r p m c b, rep) \<in> set (snd s)"
    by (simp add: trace_def)
  from d m show ?thesis
    by (cases rule: deploy_cases) (auto simp: deploy_sleep_def elim!: stage_cases)
qed

theorem deploy_pushes_html_verbatim_witness:
  "(UpdateFile (lit ''user/demo-site'') (lit ''index.html'') (lit ''Update index.html'')
      ([32, 10] @ lit ''<h1>Hi</h1>'' @ [10]) (sha demo_file) (lit ''main''), Done)
     \<in> set (trace existing_provider demo_token padded_request 0) \<and>
   [32, 10] @ lit ''<h1>Hi</h1>'' @ [10] = html padded_request \<and>
   strip (html padded_request) = lit ''<h1>Hi</h1>''"
proof -
  have h: "(UpdateFile (lit ''user/demo-site'') (lit ''index.html'') (lit ''Update index.html'')
      ([32, 10] @ lit ''<h1>Hi</h1>'' @ [10]) (sha demo_file) (lit ''main''), Done)
     \<in> set (trace existing_provider demo_token padded_request 0)"
    by (simp add: run_defs demo_defs lit_def)
  have st: "strip (html padded_request) = lit ''<h1>Hi</h1>''"
    by (simp add: padded_request_def strip_def isspace_def lit_def)
  from deploy_pushes_html_verbatim [OF disjI1 [OF h]] h st show ?thesis
    by simp
qed

text \<open>
  C8. A failing call is not always surfaced as an \<open>HTTPException\<close>. Here the repository is
  new, the content lookup reports that \<open>index.html\<close> is absent, and \<open>repo.create_file\<close>
  raises: the exception is raised inside the \<open>except UnknownObjectException\<close> clause, the
  clause \<open>except Exception\<close> of the same \<open>try\<close> statement does not apply to it, and it leaves
  the handler uncaught.
\<close>

theorem deploy_create_file_failure_uncaught:
  "outcome create_file_failing_provider demo_token demo_request 0 =
     Inl (Uncaught unprocessable) \<and>
   trace create_file_failing_provider demo_token demo_request 0 =
     [(GetUser demo_token, GotUser demo_user),
      (GetRepo demo_user (lit ''demo-site''), Raised not_found),
      (CreateRepo demo_user (lit ''demo-site'') True, GotRepo (lit ''user/demo-site'')),
      (Sleep 2, Done),
      (GetContents (lit ''user/demo-site'') (lit ''index.html'') (lit ''main''),
       Raised not_found),
      (CreateFile (lit ''user/demo-site'') (lit ''index.html'') (lit ''Add index.html'')
         (lit ''<h1>Hi</h1>'') (lit ''main''), Raised unprocessable)]"
  by (simp add: run_defs demo_defs lit_def)

section \<open>Pages\<close>

text \<open>
  C4. In every run in which the request enabling Pages is answered with a status code
  other than 201 and 204, \<open>deploy\<close> fails with the \<open>HTTPException\<close> of status 500 whose
  detail holds that status code and the body of the answer, and the run makes no request
  fetching the Pages configuration.
\<close>

theorem deploy_pages_enable_refused:
  assumes "(RequestsPost url hs pl, GotResponse resp) \<in> set (trace P GITHUB_TOKEN req w)"
    and "status_code resp \<notin> {201, 204}"
  shows "outcome P GITHUB_TOKEN req w =
           Inl (HTTPException 500
                  (lit ''Enabling Pages failed ('' @ str_int (status_code resp) @ lit ''): ''
                     @ resp_text resp)) \<and>
         (\<forall>ev\<in>set (trace P GITHUB_TOKEN req w). \<not> is_pages_fetch (fst ev))"
proof -
  obtain res s where d: "deploy P GITHUB_TOKEN req w = (res, s)"
    by (cases "deploy P GITHUB_TOKEN req w")
  with assms have m: "(RequestsPost url hs pl, GotResponse resp) \<in> set (snd s)"
    by (simp add: trace_def)
  from assms(2) have st: "status_code resp \<noteq> 201" "status_code resp \<noteq> 204"
    by simp_all
  from d m st
  have "res = Inl (HTTPException 500
                     (lit ''Enabling Pages failed ('' @ str_int (status_code resp) @ lit ''): ''
                        @ resp_text resp)) \<and>
        (\<forall>ev\<in>set (snd s). \<not> is_pages_fetch (fst ev))"
    by (cases rule: deploy_cases) (auto simp: deploy_sleep_def elim!: stage_cases)
  with d show ?thesis
    by (simp add: outcome_def trace_def)
qed

theorem deploy_pages_enable_refused_witness:
  "(RequestsPost (lit ''https://api.github.com/repos/user/demo-site/pages'')
      (pages_headers demo_token) pages_payload, GotResponse conflict_response)
     \<in> set (trace refusing_provider demo_token demo_request 0) \<and>
   status_code conflict_response \<notin> {201, 204} \<and>
   outcome refusing_provider demo_token demo_request 0 =
     Inl (HTTPException 500 (lit ''Enabling Pages failed (409): Conflict'')) \<and>
   list_all (\<lambda>ev. \<not> is_pages_fetch (fst ev)) (trace refusing_provider demo_token demo_request 0)"
proof -
  have h: "(RequestsPost (lit ''https://api.github.com/repos/user/demo-site/pages'')
      (pages_headers demo_token) pages_payload, GotResponse conflict_response)
     \<in> set (trace refusing_provider demo_token demo_request 0)"
    by (simp add: run_defs demo_defs lit_def)
  have st: "status_code conflict_response \<notin> {201, 204}"
    by (simp add: conflict_response_def)
  from deploy_pages_enable_refused [OF h st] h st show ?thesis
    by (simp add: list_all_iff str_int_409 conflict_response_def lit_def)
qed


text \<open>
  What the test of line 99 does cover: in every run in which the request fetching the
  Pages configuration is answered with status 200 and a JSON object that has no key
  \<open>html_url\<close>, \<open>deploy\<close> fails with the \<open>HTTPException\<close> of status 500; it does not return
  a result.
\<close>

lemma deploy_pages_without_html_url:
  assumes "(RequestsGet url hs, GotResponse info) \<in> set (trace P GITHUB_TOKEN req w)"
    and "status_code info = 200"
    and "json info = Inr (JObj kvs)"
    and "lit ''html_url'' \<notin> fst ` set kvs"
  shows "outcome P GITHUB_TOKEN req w =
           Inl (HTTPException 500 (lit ''No html_url in Pages response''))"
proof -
  obtain res s where d: "deploy P GITHUB_TOKEN req w = (res, s)"
    by (cases "deploy P GITHUB_TOKEN req w")
  with assms have m: "(RequestsGet url hs, GotResponse info) \<in> set (snd s)"
    by (simp add: trace_def)
  from assms(4) have n: "\<not> truthy (dict_get kvs (lit ''html_url''))"
    by (simp add: dict_get_absent)
  from d m assms(2,3) n
  have "res = Inl (HTTPException 500 (lit ''No html_url in Pages response''))"
    by (cases rule: deploy_cases) (auto simp: deploy_sleep_def elim!: stage_cases)
  with d show ?thesis
    by (simp add: outcome_def)
qed

lemma deploy_pages_without_html_url_witness:
  "(RequestsGet (lit ''https://api.github.com/repos/user/demo-site/pages'')
      (pages_headers demo_token), GotResponse no_url_response)
     \<in> set (trace no_url_provider demo_token demo_request 0) \<and>
   status_code no_url_response = 200 \<and>
   json no_url_response = Inr (JObj [(lit ''status'', JStr (lit ''built''))]) \<and>
   lit ''html_url'' \<notin> fst ` set [(lit ''status'', JStr (lit ''built''))] \<and>
   outcome no_url_provider demo_token demo_request 0 =
     Inl (HTTPException 500 (lit ''No html_url in Pages response''))"
proof -
  have h: "(RequestsGet (lit ''https://api.github.com/repos/user/demo-site/pages'')
      (pages_headers demo_token), GotResponse no_url_response)
     \<in> set (trace no_url_provider demo_token demo_request 0)"
    by (simp add: run_defs demo_defs lit_def)
  have st: "status_code no_url_response = 200"
    and js: "json no_url_response = Inr (JObj [(lit ''status'', JStr (lit ''built''))])"
    by (simp_all add: no_url_response_def)
  have ab: "lit ''html_url'' \<notin> fst ` set [(lit ''status'', JStr (lit ''built''))]"
    by simp
  from deploy_pages_without_html_url [OF h st js ab] h st js ab show ?thesis
    by simp
qed

section \<open>The whole deployment\<close>

text \<open>
  The scenario of a first deployment of \<open>demo-site\<close>: the repository is created, the file
  is created, Pages is enabled and its URL is returned.
\<close>

lemma deploy_demo_site:
  "outcome fresh_provider demo_token demo_request 0 =
     Inr (JObj [(lit ''url'', JStr (lit ''https://user.github.io/demo-site/''))]) \<and>
   map fst (trace fresh_provider demo_token demo_request 0) =
     [GetUser demo_token,
      GetRepo demo_user (lit ''demo-site''),
      CreateRepo demo_user (lit ''demo-site'') True,
      Sleep 2,
      GetContents (lit ''user/demo-site'') (lit ''index.html'') (lit ''main''),
      CreateFile (lit ''user/demo-site'') (lit ''index.html'') (lit ''Add index.html'')
        (lit ''<h1>Hi</h1>'') (lit ''main''),
      RequestsPost (lit ''https://api.github.com/repos/user/demo-site/pages'')
        (pages_headers demo_token) pages_payload,
      RequestsGet (lit ''https://api.github.com/repos/user/demo-site/pages'')
        (pages_headers demo_token)]"
  by (simp add: run_defs demo_defs lit_def)

end
